theory Spec2Isabelle
  imports Complex_Main "HOL-Library.Sublist" "HOL-Library.Word"
begin

section \<open>Python text\<close>

text \<open>
  A Python \<open>str\<close> is a sequence of code points. A HOL \<open>string\<close> is a list of 8-bit
  characters, read here as the code points below 256; on that range \<open>str.lower\<close> moves
  \<open>A..Z\<close> and the accented capitals \<open>0xC0..0xDE\<close> (without the multiplication sign
  \<open>0xD7\<close>) up by 32, and \<open>str.strip\<close> removes the white space listed in \<open>isspace\<close>.
\<close>

definition lower_char :: "char \<Rightarrow> char" where
  "lower_char c = (let n = (of_char c :: nat) in
     if (65 \<le> n \<and> n \<le> 90) \<or> (192 \<le> n \<and> n \<le> 222 \<and> n \<noteq> 215)
     then char_of (n + 32) else c)"

definition lower :: "string \<Rightarrow> string" where
  "lower s = map lower_char s"

definition isspace :: "char \<Rightarrow> bool" where
  "isspace c = (let n = (of_char c :: nat) in
     (9 \<le> n \<and> n \<le> 13) \<or> (28 \<le> n \<and> n \<le> 32) \<or> n = 133 \<or> n = 160)"

definition strip :: "string \<Rightarrow> string" where
  "strip s = rev (dropWhile isspace (rev (dropWhile isspace s)))"

text \<open>\<open>k in s\<close> on two strings: \<open>k\<close> occurs in \<open>s\<close> as a contiguous run.\<close>

fun py_in :: "string \<Rightarrow> string \<Rightarrow> bool" where
  "py_in k [] = (k = [])"
| "py_in k (c # cs) = (prefix k (c # cs) \<or> py_in k cs)"

section \<open>Knowledge lookup (brain\_of\_the\_doctor.py)\<close>

text \<open>
  The two dictionaries are literals; a Python \<open>dict\<close> iterates in insertion order, so each
  is an association list in the order of the source.
\<close>

definition symptom_mapping :: "(string \<times> string) list" where
  "symptom_mapping =
    [(''headache'', ''Do you have any other symptoms like fever or nausea?''),
     (''fever'', ''How long have you had the fever? Is it accompanied by chills or sweating?''),
     (''cough'', ''Is your cough dry or productive? Do you have shortness of breath?''),
     (''chest pain'', ''Is the pain sharp or dull? Does it radiate to your arm or jaw?''),
     (''fatigue'', ''Have you been experiencing fatigue for a long time? Do you have trouble sleeping?''),
     (''abdominal pain'', ''Where exactly is the pain located? Is it sharp or cramping?'')]"

definition medical_knowledge :: "(string \<times> string) list" where
  "medical_knowledge =
    [(''headache'', ''Headaches can be caused by stress, dehydration, or migraines. Drink water and rest.''),
     (''fever'', ''Fever is often a sign of infection. Monitor your temperature and stay hydrated.''),
     (''cough'', ''A cough can be due to a cold, flu, or allergies. Rest and drink warm fluids.''),
     (''chest pain'', ''Chest pain can indicate heart issues. Seek medical attention immediately.''),
     (''fatigue'', ''Fatigue can result from lack of sleep, stress, or underlying health conditions.''),
     (''abdominal pain'', ''Abdominal pain can be caused by indigestion, gas, or more serious conditions.'')]"

text \<open>The \<open>for symptom, question in symptom_mapping.items()\<close> loop with its early return.\<close>

fun symptom_scan :: "(string \<times> string) list \<Rightarrow> string \<Rightarrow> string" where
  "symptom_scan [] user_input = ''Can you describe your symptoms in more detail?''"
| "symptom_scan ((symptom, question) # rest) user_input =
     (if py_in symptom (lower user_input)
      then ''I see you mentioned '' @ symptom @ ''. '' @ question
      else symptom_scan rest user_input)"

definition symptom_checker :: "string \<Rightarrow> string" where
  "symptom_checker user_input = symptom_scan symptom_mapping user_input"

fun knowledge_scan :: "(string \<times> string) list \<Rightarrow> string \<Rightarrow> string" where
  "knowledge_scan [] query =
     ''I recommend consulting a healthcare professional for more detailed information.''"
| "knowledge_scan ((keyword, info) # rest) query =
     (if py_in keyword (lower query)
      then ''Medical Information: '' @ info
      else knowledge_scan rest query)"

definition fetch_medical_knowledge :: "string \<Rightarrow> string" where
  "fetch_medical_knowledge query = knowledge_scan medical_knowledge query"

section \<open>Exceptions, the outside world and the program state\<close>

text \<open>
  Every exception class below is a subclass of Python's \<open>Exception\<close>, so an
  \<open>except Exception\<close> clause catches each of them. \<open>BackendError\<close> stands for whatever
  a third-party client raises. A computation that may raise returns \<open>pyerr + 'a\<close>, with
  \<open>Inl\<close> for the exception.
\<close>

datatype exn_class =
  AttributeError | TypeError | UnboundLocalError | FileNotFoundError | BackendError

datatype pyerr = Exn exn_class string

fun exn_message :: "pyerr \<Rightarrow> string" where
  "exn_message (Exn c m) = m"

fun exn_class_of :: "pyerr \<Rightarrow> exn_class" where
  "exn_class_of (Exn c m) = c"

definition try_except :: "pyerr + 'a \<Rightarrow> (pyerr \<Rightarrow> pyerr + 'a) \<Rightarrow> pyerr + 'a" where
  "try_except body handler = (case body of Inl e \<Rightarrow> handler e | Inr v \<Rightarrow> Inr v)"

type_synonym bytes = "8 word list"

text \<open>
  The remote services, the process environment and the clock are parameters of the model.
  Each service answers with a value or with an exception.
  \<^item> \<open>groq_transcriptions_create key model audio language\<close>: the transcription object's
    text, \<open>None\<close> for a falsy object;
  \<^item> \<open>groq_chat_completions_create query url model\<close>: \<open>None\<close> for a falsy completion,
    otherwise the message content of each choice (\<open>None\<close> for a content of \<open>None\<close>);
  \<^item> \<open>emotion_api_post key audio\<close>: the status code and the \<open>emotion\<close> field of the body;
  \<^item> \<open>elevenlabs_generate text voice model\<close>: the chunks of the stream, \<open>None\<close> for an
    answer that is not iterable;
  \<^item> \<open>gtts_save text lang\<close>: the audio that \<open>gTTS(...).save\<close> writes.

  Modelled from the spec: \<open>translate_text\<close>, which gradio\_app.py imports from
  voice\_of\_the\_doctor.py and which that file does not define. The spec gives it as
  \<open>translate(text, targetLanguageCode) -> string\<close>, one call to a translation backend whose
  failure propagates.
\<close>

record world =
  environ :: "string \<Rightarrow> string option"
  time_time :: real
  groq_transcriptions_create :: "string \<Rightarrow> string \<Rightarrow> bytes \<Rightarrow> string \<Rightarrow> pyerr + string option"
  groq_chat_completions_create :: "string \<Rightarrow> string \<Rightarrow> string \<Rightarrow> pyerr + string option list option"
  emotion_api_post :: "string \<Rightarrow> bytes \<Rightarrow> pyerr + nat \<times> string option"
  translate_text :: "string \<Rightarrow> string \<Rightarrow> pyerr + string"
  elevenlabs_generate :: "string \<Rightarrow> string \<Rightarrow> string \<Rightarrow> pyerr + bytes list option"
  gtts_save :: "string \<Rightarrow> string \<Rightarrow> pyerr + bytes"

text \<open>
  One turn of \<open>conversation_memory\<close> is the dict \<open>{"role": ..., "content": ...}\<close>.
\<close>

record turn =
  role :: string
  content :: string

text \<open>
  The trace records what the program does to the outside: each read of the environment
  and each adapter whose body is entered. It is instrumentation, the source has no such
  list.
\<close>

datatype event =
    EnvGet string
  | Transcription string
  | EmotionDetection string
  | VisionLanguage string "string option" string
  | Translation string string
  | PremiumSynthesis string
  | BasicSynthesis string string
  | Playback string

text \<open>
  The state: the module-level list \<open>conversation_memory\<close>, the file system (a path names
  a readable file with its bytes, or nothing), and the trace.
\<close>

record state =
  conversation_memory :: "turn list"
  files :: "string \<Rightarrow> bytes option"
  trace :: "event list"

definition record_event :: "event \<Rightarrow> state \<Rightarrow> state" where
  "record_event ev s = s\<lparr>trace := trace s @ [ev]\<rparr>"

definition memory_append :: "turn \<Rightarrow> state \<Rightarrow> state" where
  "memory_append t s = s\<lparr>conversation_memory := conversation_memory s @ [t]\<rparr>"

definition write_file :: "string \<Rightarrow> bytes \<Rightarrow> state \<Rightarrow> state" where
  "write_file path data s = s\<lparr>files := (files s)(path \<mapsto> data)\<rparr>"

definition os_path_exists :: "state \<Rightarrow> string \<Rightarrow> bool" where
  "os_path_exists s path = (files s path \<noteq> None)"

text \<open>Truth value of a variable that holds \<open>None\<close> or a \<open>str\<close>.\<close>

fun truthy :: "string option \<Rightarrow> bool" where
  "truthy None = False"
| "truthy (Some s) = (s \<noteq> [])"

text \<open>
  A call with keyword arguments raises \<open>TypeError\<close> before the body runs when a keyword
  is not a parameter of the callee.
\<close>

definition unexpected_keyword :: "string \<Rightarrow> string list \<Rightarrow> string list \<Rightarrow> pyerr option" where
  "unexpected_keyword fname params keywords =
     (case filter (\<lambda>k. k \<notin> set params) keywords of
        [] \<Rightarrow> None
      | k # _ \<Rightarrow> Some (Exn TypeError
          (fname @ ''() got an unexpected keyword argument '' @ [CHR 0x27] @ k @ [CHR 0x27])))"

definition call_kw ::
  "string \<Rightarrow> string list \<Rightarrow> string list \<Rightarrow> (state \<Rightarrow> (pyerr + 'a) \<times> state) \<Rightarrow>
   state \<Rightarrow> (pyerr + 'a) \<times> state" where
  "call_kw fname params keywords body s =
     (case unexpected_keyword fname params keywords of
        Some e \<Rightarrow> (Inl e, s)
      | None \<Rightarrow> body s)"

section \<open>Integers as text, base64\<close>

text \<open>\<open>int(x)\<close> on a float truncates towards zero; \<open>str\<close> of an int is its decimal form.\<close>

definition py_int :: "real \<Rightarrow> int" where
  "py_int x = (if 0 \<le> x then \<lfloor>x\<rfloor> else \<lceil>x\<rceil>)"

fun str_nat :: "nat \<Rightarrow> string" where
  "str_nat n = (if n < 10 then [char_of (48 + n)]
                else str_nat (n div 10) @ [char_of (48 + n mod 10)])"

declare str_nat.simps [simp del]

definition str_int :: "int \<Rightarrow> string" where
  "str_int i = (if i < 0 then CHR ''-'' # str_nat (nat (- i)) else str_nat (nat i))"

text \<open>
  \<open>base64.b64encode\<close> (RFC 4648, standard alphabet, padded): three bytes make a 24-bit
  number whose four 6-bit digits index the alphabet. \<open>b64decode\<close> is the inverse
  direction of the same table.
\<close>

definition b64_alphabet :: string where
  "b64_alphabet = ''ABCDEFGHIJKLMNOPQRSTUVWXYZabcdefghijklmnopqrstuvwxyz0123456789+/''"

definition b64_char :: "nat \<Rightarrow> char" where
  "b64_char i = b64_alphabet ! i"

fun b64encode :: "bytes \<Rightarrow> string" where
  "b64encode (a # b # c # rest) =
     (let n = unat a * 65536 + unat b * 256 + unat c in
      b64_char (n div 262144) # b64_char (n div 4096 mod 64) #
      b64_char (n div 64 mod 64) # b64_char (n mod 64) # b64encode rest)"
| "b64encode [a, b] =
     (let n = unat a * 65536 + unat b * 256 in
      [b64_char (n div 262144), b64_char (n div 4096 mod 64), b64_char (n div 64 mod 64), CHR ''=''])"
| "b64encode [a] =
     (let n = unat a * 65536 in
      [b64_char (n div 262144), b64_char (n div 4096 mod 64), CHR ''='', CHR ''=''])"
| "b64encode [] = []"

fun position :: "'a \<Rightarrow> 'a list \<Rightarrow> nat option" where
  "position x [] = None"
| "position x (y # ys) = (if x = y then Some 0 else map_option Suc (position x ys))"

definition b64_index :: "char \<Rightarrow> nat option" where
  "b64_index c = position c b64_alphabet"

definition sextets :: "nat \<Rightarrow> nat \<Rightarrow> nat \<Rightarrow> nat \<Rightarrow> nat" where
  "sextets i0 i1 i2 i3 = ((i0 * 64 + i1) * 64 + i2) * 64 + i3"

fun b64decode :: "string \<Rightarrow> bytes option" where
  "b64decode [] = Some []"
| "b64decode (c0 # c1 # c2 # c3 # rest) =
     (case (b64_index c0, b64_index c1) of
        (Some i0, Some i1) \<Rightarrow>
          if rest = [] \<and> c2 = CHR ''='' \<and> c3 = CHR ''=''
          then Some [of_nat (sextets i0 i1 0 0 div 65536)]
          else (case b64_index c2 of
                  None \<Rightarrow> None
                | Some i2 \<Rightarrow>
                    if rest = [] \<and> c3 = CHR ''=''
                    then Some [of_nat (sextets i0 i1 i2 0 div 65536),
                               of_nat (sextets i0 i1 i2 0 div 256 mod 256)]
                    else (case b64_index c3 of
                            None \<Rightarrow> None
                          | Some i3 \<Rightarrow>
                              map_option
                                (\<lambda>bs. of_nat (sextets i0 i1 i2 i3 div 65536) #
                                      of_nat (sextets i0 i1 i2 i3 div 256 mod 256) #
                                      of_nat (sextets i0 i1 i2 i3 mod 256) # bs)
                                (b64decode rest)))
      | _ \<Rightarrow> None)"
| "b64decode _ = None"

section \<open>The adapters\<close>

text \<open>
  \<open>encode_image\<close> (brain\_of\_the\_doctor.py): the existence test, then the whole file
  in base64.
\<close>

definition encode_image :: "state \<Rightarrow> string \<Rightarrow> pyerr + string" where
  "encode_image s image_path =
     (case files s image_path of
        None \<Rightarrow> Inl (Exn FileNotFoundError
          (''Error: Image file '' @ [CHR 0x27] @ image_path @ [CHR 0x27] @ '' not found.''))
      | Some data \<Rightarrow> Inr (b64encode data))"

text \<open>
  \<open>analyze_image_with_query\<close> (brain\_of\_the\_doctor.py). Its parameters are \<open>query\<close>,
  \<open>encoded_image\<close> and \<open>model\<close>. The whole body stands in \<open>try ... except Exception\<close>;
  an \<open>encoded_image\<close> of \<open>None\<close> is formatted into the URL as the text \<open>None\<close>.
\<close>

definition analyze_image_with_query ::
  "world \<Rightarrow> string \<Rightarrow> string option \<Rightarrow> string \<Rightarrow> state \<Rightarrow> (pyerr + string) \<times> state" where
  "analyze_image_with_query w query encoded_image model s =
     (let url = ''data:image/jpeg;base64,'' @ (case encoded_image of None \<Rightarrow> ''None'' | Some e \<Rightarrow> e) in
      (try_except
         (case groq_chat_completions_create w query url model of
            Inl e \<Rightarrow> Inl e
          | Inr None \<Rightarrow> Inr ''Error: No valid response from the model.''
          | Inr (Some []) \<Rightarrow> Inr ''Error: No valid response from the model.''
          | Inr (Some (None # _)) \<Rightarrow>
              Inl (Exn AttributeError
                (''NoneType'' @ [CHR 0x27] @ '' object has no attribute '' @ [CHR 0x27] @ ''strip'' @ [CHR 0x27]))
          | Inr (Some (Some text # _)) \<Rightarrow> Inr (strip text))
         (\<lambda>e. Inr (''Error during image analysis: '' @ exn_message e)),
       record_event (VisionLanguage query encoded_image model) s))"

text \<open>
  \<open>transcribe_with_groq\<close> (voice\_of\_the\_patient.py). Its parameters are \<open>stt_model\<close>,
  \<open>audio_filepath\<close>, \<open>GROQ_API_KEY\<close> and \<open>language\<close>.
\<close>

definition transcribe_with_groq ::
  "world \<Rightarrow> string \<Rightarrow> string \<Rightarrow> string \<Rightarrow> string \<Rightarrow> state \<Rightarrow> (pyerr + string) \<times> state" where
  "transcribe_with_groq w stt_model audio_filepath GROQ_API_KEY language s =
     (case files s audio_filepath of
        None \<Rightarrow> Inr ''Error: Audio file not found.''
      | Some audio \<Rightarrow>
          try_except
            (case groq_transcriptions_create w GROQ_API_KEY stt_model audio language of
               Inl e \<Rightarrow> Inl e
             | Inr None \<Rightarrow> Inr ''Error: No transcription result.''
             | Inr (Some text) \<Rightarrow> Inr text)
            (\<lambda>e. Inr ''Error: Failed to transcribe audio.''),
      record_event (Transcription audio_filepath) s)"

text \<open>\<open>detect_emotion\<close> (voice\_of\_the\_patient.py).\<close>

definition detect_emotion :: "world \<Rightarrow> string \<Rightarrow> state \<Rightarrow> (pyerr + string) \<times> state" where
  "detect_emotion w audio_filepath s =
     (case environ w ''EMOTION_API_KEY'' of
        None \<Rightarrow> Inr ''neutral''
      | Some API_KEY \<Rightarrow>
          if API_KEY = [] then Inr ''neutral''
          else try_except
            (case files s audio_filepath of
               None \<Rightarrow> Inl (Exn FileNotFoundError audio_filepath)
             | Some audio \<Rightarrow>
                 (case emotion_api_post w API_KEY audio of
                    Inl e \<Rightarrow> Inl e
                  | Inr (status_code, emotion) \<Rightarrow>
                      if status_code = 200
                      then Inr (case emotion of None \<Rightarrow> ''neutral'' | Some e \<Rightarrow> e)
                      else Inr ''neutral''))
            (\<lambda>e. Inr ''neutral''),
      record_event (EmotionDetection audio_filepath) (record_event (EnvGet ''EMOTION_API_KEY'') s))"

text \<open>
  \<open>play_audio\<close> (voice\_of\_the\_doctor.py) swallows every exception of the mixer; what
  remains of it is the attempt.
\<close>

definition play_audio :: "string \<Rightarrow> state \<Rightarrow> state" where
  "play_audio output_filepath s = record_event (Playback output_filepath) s"

definition GTTS_SUPPORTED_LANGUAGES :: "(string \<times> string) list" where
  "GTTS_SUPPORTED_LANGUAGES =
    [(''English'', ''en''), (''Hindi'', ''hi''), (''Bengali'', ''bn''), (''Telugu'', ''te''),
     (''Marathi'', ''mr''), (''Tamil'', ''ta''), (''Urdu'', ''ur''), (''Gujarati'', ''gu''),
     (''Malayalam'', ''ml''), (''Kannada'', ''kn''), (''Odia'', ''or''), (''Punjabi'', ''pa''),
     (''Assamese'', ''as''), (''Maithili'', ''hi''), (''Santali'', ''hi'')]"

text \<open>
  The output name of both synthesis functions:
  \<open>f"{output_filepath}_{int(time.time())}.mp3"\<close>.
\<close>

definition timestamped :: "world \<Rightarrow> string \<Rightarrow> string" where
  "timestamped w output_filepath =
     output_filepath @ ''_'' @ str_int (py_int (time_time w)) @ ''.mp3''"

text \<open>
  \<open>text_to_speech_with_gtts\<close> (voice\_of\_the\_doctor.py) has no \<open>try\<close>: a failure of
  the backend propagates. On success the audio is written to the timestamped name.
\<close>

definition text_to_speech_with_gtts ::
  "world \<Rightarrow> string \<Rightarrow> string \<Rightarrow> string \<Rightarrow> state \<Rightarrow> (pyerr + string) \<times> state" where
  "text_to_speech_with_gtts w input_text output_filepath lang s =
     (let lang_code = (case map_of GTTS_SUPPORTED_LANGUAGES lang of None \<Rightarrow> ''en'' | Some c \<Rightarrow> c);
          temp_filepath = timestamped w output_filepath;
          s1 = record_event (BasicSynthesis input_text lang_code) s
      in case gtts_save w input_text lang_code of
           Inl e \<Rightarrow> (Inl e, s1)
         | Inr audio \<Rightarrow> (Inr temp_filepath, play_audio temp_filepath (write_file temp_filepath audio s1)))"

text \<open>
  \<open>text_to_speech_with_elevenlabs\<close> (voice\_of\_the\_doctor.py). Its parameters are
  \<open>input_text\<close> and \<open>output_filepath\<close>. It returns \<open>None\<close> when the backend raises or
  answers with something that is not iterable; empty chunks are not written.
\<close>

definition text_to_speech_with_elevenlabs ::
  "world \<Rightarrow> string \<Rightarrow> string \<Rightarrow> state \<Rightarrow> (pyerr + string option) \<times> state" where
  "text_to_speech_with_elevenlabs w input_text output_filepath s =
     (let s1 = record_event (PremiumSynthesis input_text) s;
          temp_filepath = timestamped w output_filepath
      in case elevenlabs_generate w input_text ''Aria'' ''eleven_turbo_v2'' of
           Inl e \<Rightarrow> (Inr None, s1)
         | Inr None \<Rightarrow> (Inr None, s1)
         | Inr (Some audio_stream) \<Rightarrow>
             (Inr (Some temp_filepath),
              play_audio temp_filepath
                (write_file temp_filepath (concat (filter (\<lambda>chunk. chunk \<noteq> []) audio_stream)) s1)))"

section \<open>The orchestrator (gradio\_app.py)\<close>

definition system_prompt :: string where
  "system_prompt =
     ''You have to act as a professional doctor. '' @ [CHR 0x0A] @
     ''            What's in this image? Do you find anything wrong with it medically? '' @ [CHR 0x0A] @
     ''            If you make a differential, suggest some remedies for them. Do not add any numbers or special characters '' @ [CHR 0x0A] @
     ''            in your response. Your response should be in one long paragraph. Always answer as if you are speaking '' @ [CHR 0x0A] @
     ''            to a real person. Do not say 'In the image I see' but say 'With what I see, I think you have ...' '' @ [CHR 0x0A] @
     ''            Do not respond as an AI model or in markdown, your answer should mimic that of an actual doctor. '' @ [CHR 0x0A] @
     ''            Keep your answer concise (max 2 sentences). No preamble, start your answer right away.''"

text \<open>
  The first test of \<open>process_inputs\<close>:
  \<open>audio_filepath is None and image_filepath is None and text_input.strip() == ""\<close>.
  \<open>and\<close> evaluates its right operand only when the left one is true, so \<open>strip\<close> is
  called on \<open>text_input\<close> only when both paths are \<open>None\<close>; on \<open>None\<close> that call raises
  \<open>AttributeError\<close>.
\<close>

definition no_input :: "string option \<Rightarrow> string option \<Rightarrow> string option \<Rightarrow> pyerr + bool" where
  "no_input audio_filepath image_filepath text_input =
     (if audio_filepath = None \<and> image_filepath = None
      then (case text_input of
              None \<Rightarrow> Inl (Exn AttributeError
                (''NoneType'' @ [CHR 0x27] @ '' object has no attribute '' @ [CHR 0x27] @ ''strip'' @ [CHR 0x27]))
            | Some t \<Rightarrow> Inr (strip t = []))
      else Inr False)"

text \<open>
  A block of the body either leaves the function with its triple or falls through with
  the values of its local variables.
\<close>

type_synonym response = "string \<times> string \<times> string option"

datatype 'a flow = Return response | Continue 'a

text \<open>
  Lines 37 to 50: transcription. The result is \<open>speech_to_text_output\<close>; \<open>emotion\<close> is
  assigned and never read.
\<close>

definition transcribe_step ::
  "world \<Rightarrow> string option \<Rightarrow> state \<Rightarrow> (pyerr + string flow) \<times> state" where
  "transcribe_step w audio_filepath s =
     (case audio_filepath of
        None \<Rightarrow> (Inr (Continue []), s)
      | Some path \<Rightarrow>
          if path \<noteq> [] \<and> os_path_exists s path
          then (let s1 = record_event (EnvGet ''GROQ_API_KEY'') s in
                case environ w ''GROQ_API_KEY'' of
                  None \<Rightarrow> (Inr (Return (''Error: Missing GROQ API Key'', ''No doctor response'', None)), s1)
                | Some GROQ_API_KEY \<Rightarrow>
                    if GROQ_API_KEY = []
                    then (Inr (Return (''Error: Missing GROQ API Key'', ''No doctor response'', None)), s1)
                    else (case call_kw ''transcribe_with_groq''
                                 [''stt_model'', ''audio_filepath'', ''GROQ_API_KEY'', ''language'']
                                 [''GROQ_API_KEY'', ''audio_filepath'', ''stt_model'', ''language'']
                                 (transcribe_with_groq w ''whisper-large-v3'' path GROQ_API_KEY ''auto'') s1 of
                            (Inl e, s2) \<Rightarrow> (Inl e, s2)
                          | (Inr speech_to_text_output, s2) \<Rightarrow>
                              (case detect_emotion w path s2 of
                                 (Inl e, s3) \<Rightarrow> (Inl e, s3)
                               | (Inr emotion, s3) \<Rightarrow> (Inr (Continue speech_to_text_output), s3))))
          else (Inr (Continue []), s))"

text \<open>
  Lines 59 to 64: the image. The result is the binding of the local name
  \<open>encoded_image\<close>: \<open>None\<close> when the \<open>else\<close> branch ran and left the name unbound.
  \<open>image_analysis\<close> is assigned and never read.
\<close>

definition image_step ::
  "world \<Rightarrow> string option \<Rightarrow> state \<Rightarrow> (pyerr + string option) \<times> state" where
  "image_step w image_filepath s =
     (case image_filepath of
        None \<Rightarrow> (Inr None, s)
      | Some path \<Rightarrow>
          if path \<noteq> [] \<and> os_path_exists s path
          then (case encode_image s path of
                  Inl e \<Rightarrow> (Inl e, s)
                | Inr encoded_image \<Rightarrow>
                    (case call_kw ''analyze_image_with_query''
                            [''query'', ''encoded_image'', ''model'']
                            [''query'', ''encoded_image'', ''model'']
                            (analyze_image_with_query w system_prompt (Some encoded_image)
                               ''llama-3.2-11b-vision-preview'') s of
                       (Inl e, s1) \<Rightarrow> (Inl e, s1)
                     | (Inr image_analysis, s1) \<Rightarrow> (Inr (Some encoded_image), s1)))
          else (Inr None, s))"

text \<open>Line 53: \<open>text_input if text_input else speech_to_text_output\<close>.\<close>

definition user_input_of :: "string option \<Rightarrow> string \<Rightarrow> string" where
  "user_input_of text_input speech_to_text_output =
     (case text_input of
        None \<Rightarrow> speech_to_text_output
      | Some t \<Rightarrow> if t \<noteq> [] then t else speech_to_text_output)"

text \<open>
  Lines 68 and 73: a string is true when it is not empty, which guards both appends of a
  system turn.
\<close>

definition append_if_nonempty :: "string \<Rightarrow> state \<Rightarrow> state" where
  "append_if_nonempty text s =
     (if text \<noteq> [] then memory_append \<lparr>role = ''system'', content = text\<rparr> s else s)"

text \<open>
  Lines 33 to 74, up to the point where the composed response is requested.
\<close>

definition gather_context ::
  "world \<Rightarrow> string option \<Rightarrow> string option \<Rightarrow> string option \<Rightarrow> state \<Rightarrow>
   (pyerr + (string \<times> string option) flow) \<times> state" where
  "gather_context w audio_filepath image_filepath text_input s =
     (case no_input audio_filepath image_filepath text_input of
        Inl e \<Rightarrow> (Inl e, s)
      | Inr True \<Rightarrow> (Inr (Return (''No input provided'', ''No doctor response'', None)), s)
      | Inr False \<Rightarrow>
          (case transcribe_step w audio_filepath s of
             (Inl e, s1) \<Rightarrow> (Inl e, s1)
           | (Inr (Return r), s1) \<Rightarrow> (Inr (Return r), s1)
           | (Inr (Continue speech_to_text_output), s1) \<Rightarrow>
               (let user_input = user_input_of text_input speech_to_text_output;
                    s2 = memory_append \<lparr>role = ''user'', content = user_input\<rparr> s1
                in case image_step w image_filepath s2 of
                     (Inl e, s3) \<Rightarrow> (Inl e, s3)
                   | (Inr encoded_image, s3) \<Rightarrow>
                       (Inr (Continue (user_input, encoded_image)),
                        append_if_nonempty (fetch_medical_knowledge user_input)
                          (append_if_nonempty (symptom_checker user_input) s3)))))"

text \<open>
  Line 78, \<open>encoded_image if image_filepath else None\<close>: reading the unbound name raises
  \<open>UnboundLocalError\<close>.
\<close>

definition image_argument :: "string option \<Rightarrow> string option \<Rightarrow> pyerr + string option" where
  "image_argument image_filepath encoded_image =
     (if truthy image_filepath
      then (case encoded_image of
              None \<Rightarrow> Inl (Exn UnboundLocalError
                (''cannot access local variable '' @ [CHR 0x27] @ ''encoded_image'' @ [CHR 0x27] @
                 '' where it is not associated with a value''))
            | Some e \<Rightarrow> Inr (Some e))
      else Inr None)"

text \<open>
  Lines 90 to 94: the synthesis call inside \<open>try ... except Exception\<close>, which turns an
  exception into the audio path \<open>None\<close>. The call passes the keyword \<open>language\<close>.
\<close>

definition speech_step :: "world \<Rightarrow> string \<Rightarrow> string \<Rightarrow> state \<Rightarrow> string option \<times> state" where
  "speech_step w ai_response language_preference s =
     (case call_kw ''text_to_speech_with_elevenlabs''
             [''input_text'', ''output_filepath'']
             [''input_text'', ''output_filepath'', ''language'']
             (text_to_speech_with_elevenlabs w ai_response ''final.mp3'') s of
        (Inl e, s1) \<Rightarrow> (None, s1)
      | (Inr voice_of_doctor, s1) \<Rightarrow> (voice_of_doctor, s1))"

text \<open>
  Lines 77 to 96: the composed response, its translation and its synthesis. The call of
  \<open>analyze_image_with_query\<close> passes the keyword \<open>memory\<close>; the arguments are evaluated
  before the call is made.
\<close>

definition respond ::
  "world \<Rightarrow> string option \<Rightarrow> string \<Rightarrow> string \<times> string option \<Rightarrow> state \<Rightarrow>
   (pyerr + response) \<times> state" where
  "respond w image_filepath language_preference locals s =
     (case locals of (user_input, encoded_image) \<Rightarrow>
        (case image_argument image_filepath encoded_image of
           Inl e \<Rightarrow> (Inl e, s)
         | Inr image_value \<Rightarrow>
             (case call_kw ''analyze_image_with_query''
                     [''query'', ''encoded_image'', ''model'']
                     [''query'', ''encoded_image'', ''model'', ''memory'']
                     (analyze_image_with_query w (system_prompt @ '' '' @ user_input) image_value
                        ''llama-3.2-11b-vision-preview'') s of
                (Inl e, s1) \<Rightarrow> (Inl e, s1)
              | (Inr ai_response, s1) \<Rightarrow>
                  (let s2 = memory_append \<lparr>role = ''assistant'', content = ai_response\<rparr> s1 in
                   if language_preference \<noteq> ''en''
                   then (case translate_text w ai_response language_preference of
                           Inl e \<Rightarrow> (Inl e, record_event (Translation ai_response language_preference) s2)
                         | Inr translated \<Rightarrow>
                             (case speech_step w translated language_preference
                                     (record_event (Translation ai_response language_preference) s2) of
                                (voice_of_doctor, s3) \<Rightarrow> (Inr (user_input, translated, voice_of_doctor), s3)))
                   else (case speech_step w ai_response language_preference s2 of
                           (voice_of_doctor, s3) \<Rightarrow> (Inr (user_input, ai_response, voice_of_doctor), s3))))))"

definition process_inputs ::
  "world \<Rightarrow> string option \<Rightarrow> string option \<Rightarrow> string option \<Rightarrow> string \<Rightarrow> state \<Rightarrow>
   (pyerr + response) \<times> state" where
  "process_inputs w audio_filepath image_filepath text_input language_preference s =
     (case gather_context w audio_filepath image_filepath text_input s of
        (Inl e, s1) \<Rightarrow> (Inl e, s1)
      | (Inr (Return r), s1) \<Rightarrow> (Inr r, s1)
      | (Inr (Continue locals), s1) \<Rightarrow> respond w image_filepath language_preference locals s1)"

section \<open>Vocabulary of the properties\<close>

fun raises :: "exn_class \<Rightarrow> pyerr + 'a \<Rightarrow> bool" where
  "raises c (Inl e) = (exn_class_of e = c)"
| "raises c (Inr v) = False"

text \<open>The condition of lines 37 and 59: a path that is given, not empty, and names a file.\<close>

definition file_given :: "state \<Rightarrow> string option \<Rightarrow> bool" where
  "file_given s filepath =
     (case filepath of None \<Rightarrow> False | Some path \<Rightarrow> path \<noteq> [] \<and> os_path_exists s path)"

definition credential_ok :: "world \<Rightarrow> bool" where
  "credential_ok w = truthy (environ w ''GROQ_API_KEY'')"

text \<open>The events of the transcription block: the read of the key and the adapter.\<close>

fun stt_event :: "event \<Rightarrow> bool" where
  "stt_event (EnvGet k) = (k = ''GROQ_API_KEY'')"
| "stt_event (Transcription p) = True"
| "stt_event ev = False"

fun vision_event :: "event \<Rightarrow> bool" where
  "vision_event (VisionLanguage q i m) = True"
| "vision_event ev = False"

text \<open>
  A world in which every service answers, and a state with an image and a recording on
  disk; the concrete inputs of the examples below.
\<close>

definition sample_world :: world where
  "sample_world =
     \<lparr>environ = [''GROQ_API_KEY'' \<mapsto> ''gsk-1''],
      time_time = 17000000002 / 10,
      groq_transcriptions_create = (\<lambda>key model audio language. Inr (Some '' I have a cough '')),
      groq_chat_completions_create =
        (\<lambda>query url model. Inr (Some [Some ''With what I see, I think you have a mild rash.''])),
      emotion_api_post = (\<lambda>key audio. Inr (200, Some ''calm'')),
      translate_text = (\<lambda>text target_lang. Inr text),
      elevenlabs_generate = (\<lambda>text voice model. Inr (Some [[1, 2], [], [3]])),
      gtts_save = (\<lambda>text lang. Inr (map of_char text))\<rparr>"

definition sample_state :: state where
  "sample_state =
     \<lparr>conversation_memory = [],
      files = [''rash.jpg'' \<mapsto> [0x89, 0x50, 0x4E, 0x47, 0x0D], ''cough.wav'' \<mapsto> [0x52, 0x49]],
      trace = []\<rparr>"

section \<open>Base64: decoding inverts encoding\<close>

lemma sextets_recombine:
  "sextets (n div 262144) (n div 4096 mod 64) (n div 64 mod 64) (n mod 64) = n"
proof -
  have a: "n div 4096 = n div 64 div 64" "n div 262144 = n div 64 div 64 div 64"
    by (simp_all add: div_mult2_eq [symmetric])
  have "n div 64 div 64 div 64 * 64 + n div 64 div 64 mod 64 = n div 64 div 64"
    by (rule div_mult_mod_eq)
  moreover have "n div 64 div 64 * 64 + n div 64 mod 64 = n div 64"
    by (rule div_mult_mod_eq)
  moreover have "n div 64 * 64 + n mod 64 = n"
    by (rule div_mult_mod_eq)
  ultimately show ?thesis unfolding a sextets_def by simp
qed

lemma octets_split:
  fixes a b c :: nat
  assumes "b < 256" "c < 256"
  shows "(a * 65536 + b * 256 + c) div 65536 = a"
    and "(a * 65536 + b * 256 + c) div 256 mod 256 = b"
    and "(a * 65536 + b * 256 + c) mod 256 = c"
proof -
  have r: "b * 256 + c < 65536" using assms by linarith
  have "(a * 65536 + (b * 256 + c)) div 65536 = a" using r by simp
  then show "(a * 65536 + b * 256 + c) div 65536 = a" by (simp add: add.assoc)
  have "a * 65536 + b * 256 + c = (a * 256 + b) * 256 + c" by simp
  then have d: "(a * 65536 + b * 256 + c) div 256 = a * 256 + b" using assms by simp
  show "(a * 65536 + b * 256 + c) div 256 mod 256 = b" unfolding d using assms by simp
  have "(a * 65536 + b * 256 + c) mod 256 = (c + (a * 256 + b) * 256) mod 256"
    by (rule arg_cong [where f = "\<lambda>x. x mod 256"]) simp
  also have "\<dots> = c mod 256" by (rule mod_mult_self1)
  also have "\<dots> = c" using assms by simp
  finally show "(a * 65536 + b * 256 + c) mod 256 = c" .
qed

lemma top_sextet_bound:
  fixes a b c :: nat
  assumes "a < 256" "b < 256" "c < 256"
  shows "(a * 65536 + b * 256 + c) div 262144 < 64"
proof -
  have "a * 65536 + b * 256 + c < 64 * 262144" using assms by linarith
  then show ?thesis by (simp add: less_mult_imp_div_less)
qed

lemma position_nth: "distinct xs \<Longrightarrow> i < length xs \<Longrightarrow> position (xs ! i) xs = Some i"
proof (induction xs arbitrary: i)
  case Nil then show ?case by simp
next
  case (Cons y ys)
  then show ?case by (cases i) auto
qed

lemma b64_alphabet_distinct: "distinct b64_alphabet"
  by (simp add: b64_alphabet_def)

lemma b64_alphabet_length: "length b64_alphabet = 64"
  by (simp add: b64_alphabet_def)

lemma b64_index_char: "i < 64 \<Longrightarrow> b64_index (b64_char i) = Some i"
  by (simp add: b64_index_def b64_char_def position_nth b64_alphabet_distinct b64_alphabet_length)

lemma b64_pad_not_in_alphabet: "CHR ''='' \<notin> set b64_alphabet"
  by (simp add: b64_alphabet_def)

lemma b64_char_not_pad: "i < 64 \<Longrightarrow> b64_char i \<noteq> CHR ''=''"
proof -
  assume "i < 64"
  then have "b64_alphabet ! i \<in> set b64_alphabet"
    by (intro nth_mem) (simp add: b64_alphabet_length)
  with b64_pad_not_in_alphabet show ?thesis
    by (auto simp: b64_char_def)
qed

lemma byte_bound: "unat (a :: 8 word) < 256"
  using unsigned_less [of a, where 'a = nat] by simp

lemma b64_roundtrip: "b64decode (b64encode bs) = Some bs"
proof (induction bs rule: b64encode.induct)
  case (1 a b c rest)
  define n where "n = unat a * 65536 + unat b * 256 + unat c"
  have q: "n div 262144 < 64" "n div 4096 mod 64 < 64" "n div 64 mod 64 < 64" "n mod 64 < 64"
    unfolding n_def using top_sextet_bound [of "unat a" "unat b" "unat c"] byte_bound
    by simp_all
  have o: "n div 65536 = unat a" "n div 256 mod 256 = unat b" "n mod 256 = unat c"
    unfolding n_def using octets_split [of "unat b" "unat c" "unat a"] byte_bound by simp_all
  have enc: "b64encode (a # b # c # rest) =
      b64_char (n div 262144) # b64_char (n div 4096 mod 64) #
      b64_char (n div 64 mod 64) # b64_char (n mod 64) # b64encode rest"
    by (simp add: n_def Let_def)
  show ?case
    unfolding enc
    by (simp add: b64_index_char q b64_char_not_pad sextets_recombine o "1.IH" del: b64encode.simps)
next
  case (2 a b)
  define n where "n = unat a * 65536 + unat b * 256"
  have n': "n = unat a * 65536 + unat b * 256 + 0" by (simp add: n_def)
  have q: "n div 262144 < 64" "n div 4096 mod 64 < 64" "n div 64 mod 64 < 64"
    unfolding n' using top_sextet_bound [of "unat a" "unat b" 0] byte_bound
    by simp_all
  have o: "n div 65536 = unat a" "n div 256 mod 256 = unat b"
    unfolding n' using octets_split [of "unat b" 0 "unat a"] byte_bound by simp_all
  have "n = (unat a * 1024 + unat b * 4) * 64" by (simp add: n_def)
  then have z: "n mod 64 = 0" by simp
  have r: "sextets (n div 262144) (n div 4096 mod 64) (n div 64 mod 64) 0 = n"
    using sextets_recombine [of n] unfolding z .
  have enc: "b64encode [a, b] =
      [b64_char (n div 262144), b64_char (n div 4096 mod 64), b64_char (n div 64 mod 64), CHR ''='']"
    by (simp add: n_def Let_def)
  show ?case
    unfolding enc
    by (simp add: b64_index_char q b64_char_not_pad r o)
next
  case (3 a)
  define n where "n = unat a * 65536"
  have n': "n = unat a * 65536 + 0 * 256 + 0" by (simp add: n_def)
  have q: "n div 262144 < 64" "n div 4096 mod 64 < 64"
    unfolding n' using top_sextet_bound [of "unat a" 0 0] byte_bound
    by simp_all
  have o: "n div 65536 = unat a"
    by (simp add: n_def)
  have "n = unat a * 1024 * 64" by (simp add: n_def)
  then have z: "n mod 64 = 0" "n div 64 = unat a * 16 * 64" by simp_all
  have z': "n div 64 mod 64 = 0" unfolding z by simp
  have r: "sextets (n div 262144) (n div 4096 mod 64) 0 0 = n"
    using sextets_recombine [of n] by (simp only: z(1) z')
  have enc: "b64encode [a] =
      [b64_char (n div 262144), b64_char (n div 4096 mod 64), CHR ''='', CHR ''='']"
    by (simp add: n_def Let_def)
  show ?case
    unfolding enc
    by (simp add: b64_index_char q r o)
next
  case 4
  show ?case by simp
qed

section \<open>The adapters return, the composed response does not\<close>

lemma transcribe_with_groq_returns:
  "\<exists>r. transcribe_with_groq w m p k l s = (Inr r, record_event (Transcription p) s)"
  by (auto simp: transcribe_with_groq_def try_except_def split: option.splits sum.splits)

lemma detect_emotion_returns:
  "\<exists>r. detect_emotion w p s =
     (Inr r, record_event (EmotionDetection p) (record_event (EnvGet ''EMOTION_API_KEY'') s))"
  by (auto simp: detect_emotion_def try_except_def split: option.splits sum.splits)

lemma analyze_image_with_query_returns:
  "\<exists>r. analyze_image_with_query w q i m s = (Inr r, record_event (VisionLanguage q i m) s)"
  by (auto simp: analyze_image_with_query_def try_except_def Let_def
      split: option.splits sum.splits list.splits)

lemma call_kw_accepted: "set keywords \<subseteq> set params \<Longrightarrow> call_kw f params keywords body s = body s"
proof -
  assume "set keywords \<subseteq> set params"
  then have "filter (\<lambda>k. k \<notin> set params) keywords = []"
    by (auto simp: filter_empty_conv)
  then show ?thesis by (simp add: call_kw_def unexpected_keyword_def)
qed

lemma call_kw_memory:
  "call_kw ''analyze_image_with_query'' [''query'', ''encoded_image'', ''model'']
     [''query'', ''encoded_image'', ''model'', ''memory''] body s =
   (Inl (Exn TypeError (''analyze_image_with_query() got an unexpected keyword argument '' @
      [CHR 0x27] @ ''memory'' @ [CHR 0x27])), s)"
  by (simp add: call_kw_def unexpected_keyword_def)

lemma call_kw_language:
  "call_kw ''text_to_speech_with_elevenlabs'' [''input_text'', ''output_filepath'']
     [''input_text'', ''output_filepath'', ''language''] body s =
   (Inl (Exn TypeError (''text_to_speech_with_elevenlabs() got an unexpected keyword argument '' @
      [CHR 0x27] @ ''language'' @ [CHR 0x27])), s)"
  by (simp add: call_kw_def unexpected_keyword_def)

lemma respond_raises:
  "\<exists>e. respond w image_filepath lang locals s = (Inl e, s) \<and>
       (exn_class_of e = TypeError \<or> exn_class_of e = UnboundLocalError)"
  by (cases locals) (auto simp: respond_def image_argument_def call_kw_memory split: option.splits)

lemma speech_step_none: "speech_step w text lang s = (None, s)"
  by (simp add: speech_step_def call_kw_language)

lemma record_event_fields [simp]:
  "conversation_memory (record_event ev s) = conversation_memory s"
  "files (record_event ev s) = files s"
  "trace (record_event ev s) = trace s @ [ev]"
  by (simp_all add: record_event_def)

lemma memory_append_fields [simp]:
  "conversation_memory (memory_append t s) = conversation_memory s @ [t]"
  "files (memory_append t s) = files s"
  "trace (memory_append t s) = trace s"
  by (simp_all add: memory_append_def)

lemma os_path_exists_record_event [simp]: "os_path_exists (record_event ev s) p = os_path_exists s p"
  by (simp add: os_path_exists_def)

lemma os_path_exists_memory_append [simp]: "os_path_exists (memory_append t s) p = os_path_exists s p"
  by (simp add: os_path_exists_def)

lemma file_given_memory_append [simp]: "file_given (memory_append t s) p = file_given s p"
  by (simp add: file_given_def split: option.splits)

lemma transcribe_step_skipped:
  "\<not> file_given s a \<Longrightarrow> transcribe_step w a s = (Inr (Continue []), s)"
  by (auto simp: transcribe_step_def file_given_def split: option.splits)

lemma transcribe_step_no_key:
  "file_given s a \<Longrightarrow> \<not> credential_ok w \<Longrightarrow>
   transcribe_step w a s =
     (Inr (Return (''Error: Missing GROQ API Key'', ''No doctor response'', None)),
      record_event (EnvGet ''GROQ_API_KEY'') s)"
  by (auto simp: transcribe_step_def file_given_def credential_ok_def Let_def split: option.splits)

lemma transcribe_step_done:
  assumes "file_given s a" and "credential_ok w"
  shows "\<exists>spoken s'. transcribe_step w a s = (Inr (Continue spoken), s') \<and>
           conversation_memory s' = conversation_memory s \<and> files s' = files s \<and>
           trace s' = trace s @ [EnvGet ''GROQ_API_KEY'', Transcription (the a),
                                 EnvGet ''EMOTION_API_KEY'', EmotionDetection (the a)]"
proof -
  from assms(1) obtain p where a: "a = Some p" and p: "p \<noteq> []" "os_path_exists s p"
    by (auto simp: file_given_def split: option.splits)
  from assms(2) obtain k where k: "environ w ''GROQ_API_KEY'' = Some k" "k \<noteq> []"
    by (cases "environ w ''GROQ_API_KEY''") (auto simp: credential_ok_def)
  define s1 where "s1 = record_event (EnvGet ''GROQ_API_KEY'') s"
  obtain spoken where t: "transcribe_with_groq w ''whisper-large-v3'' p k ''auto'' s1 =
      (Inr spoken, record_event (Transcription p) s1)"
    using transcribe_with_groq_returns by blast
  obtain em where e: "detect_emotion w p (record_event (Transcription p) s1) =
      (Inr em, record_event (EmotionDetection p)
         (record_event (EnvGet ''EMOTION_API_KEY'') (record_event (Transcription p) s1)))"
    using detect_emotion_returns by blast
  have "transcribe_step w a s = (Inr (Continue spoken), record_event (EmotionDetection p)
         (record_event (EnvGet ''EMOTION_API_KEY'') (record_event (Transcription p) s1)))"
    using a p k t e by (simp add: transcribe_step_def Let_def call_kw_accepted s1_def)
  then show ?thesis by (simp add: a s1_def)
qed

lemma image_step_skipped:
  "\<not> file_given s i \<Longrightarrow> image_step w i s = (Inr None, s)"
  by (auto simp: image_step_def file_given_def split: option.splits)

lemma image_step_done:
  assumes "file_given s i"
  shows "\<exists>data. files s (the i) = Some data \<and>
           image_step w i s =
             (Inr (Some (b64encode data)),
              record_event (VisionLanguage system_prompt (Some (b64encode data))
                              ''llama-3.2-11b-vision-preview'') s)"
proof -
  from assms obtain p data where i: "i = Some p" and p: "p \<noteq> []" "os_path_exists s p"
    and d: "files s p = Some data"
    by (auto simp: file_given_def os_path_exists_def split: option.splits)
  obtain r where "analyze_image_with_query w system_prompt (Some (b64encode data))
        ''llama-3.2-11b-vision-preview'' s =
      (Inr r, record_event (VisionLanguage system_prompt (Some (b64encode data))
                              ''llama-3.2-11b-vision-preview'') s)"
    using analyze_image_with_query_returns by blast
  then show ?thesis
    using i p d by (simp add: image_step_def encode_image_def call_kw_accepted)
qed

lemma symptom_scan_nonempty: "symptom_scan tbl t \<noteq> []"
  by (induction tbl) (auto split: if_splits)

lemma knowledge_scan_nonempty: "knowledge_scan tbl t \<noteq> []"
  by (induction tbl) (auto split: if_splits)

lemma append_if_nonempty_fields [simp]:
  "files (append_if_nonempty x s) = files s"
  "trace (append_if_nonempty x s) = trace s"
  by (simp_all add: append_if_nonempty_def)

lemma file_given_files: "files s' = files s \<Longrightarrow> file_given s' p = file_given s p"
  by (simp add: file_given_def os_path_exists_def split: option.splits)

lemma gather_context_after_transcribe:
  assumes v: "no_input a i t = Inr False"
    and tr: "transcribe_step w a s = (Inr (Continue spoken), s1)"
  shows "\<exists>e s'. gather_context w a i t s = (Inr (Continue (user_input_of t spoken, e)), s') \<and>
     conversation_memory s' = conversation_memory s1 @
       [\<lparr>role = ''user'', content = user_input_of t spoken\<rparr>,
        \<lparr>role = ''system'', content = symptom_checker (user_input_of t spoken)\<rparr>,
        \<lparr>role = ''system'', content = fetch_medical_knowledge (user_input_of t spoken)\<rparr>] \<and>
     filter stt_event (trace s') = filter stt_event (trace s1) \<and>
     length (filter vision_event (trace s')) =
       length (filter vision_event (trace s1)) + (if file_given s1 i then 1 else 0)"
proof -
  define u where "u = user_input_of t spoken"
  define s2 where "s2 = memory_append \<lparr>role = ''user'', content = u\<rparr> s1"
  have ne: "symptom_checker u \<noteq> []" "fetch_medical_knowledge u \<noteq> []"
    by (simp_all add: symptom_checker_def fetch_medical_knowledge_def
        symptom_scan_nonempty knowledge_scan_nonempty)
  have fg: "file_given s2 i = file_given s1 i"
    by (simp add: s2_def)
  show ?thesis
  proof (cases "file_given s1 i")
    case False
    then have "image_step w i s2 = (Inr None, s2)"
      using fg image_step_skipped by simp
    then have "gather_context w a i t s =
        (Inr (Continue (u, None)),
         append_if_nonempty (fetch_medical_knowledge u) (append_if_nonempty (symptom_checker u) s2))"
      using v tr by (simp add: gather_context_def Let_def u_def s2_def)
    then show ?thesis
      using ne False by (simp add: append_if_nonempty_def s2_def u_def [symmetric])
  next
    case True
    then obtain data where "image_step w i s2 =
        (Inr (Some (b64encode data)),
         record_event (VisionLanguage system_prompt (Some (b64encode data))
                         ''llama-3.2-11b-vision-preview'') s2)"
      using fg image_step_done [of s2 i w] by auto
    then have "gather_context w a i t s =
        (Inr (Continue (u, Some (b64encode data))),
         append_if_nonempty (fetch_medical_knowledge u) (append_if_nonempty (symptom_checker u)
           (record_event (VisionLanguage system_prompt (Some (b64encode data))
                         ''llama-3.2-11b-vision-preview'') s2)))"
      using v tr by (simp add: gather_context_def Let_def u_def s2_def)
    then show ?thesis
      using ne True by (simp add: append_if_nonempty_def s2_def u_def [symmetric])
  qed
qed

section \<open>Properties of the knowledge lookup\<close>

lemma py_in_sublist: "py_in k s \<longleftrightarrow> sublist k s"
  by (induction s) (simp_all add: sublist_Cons_right)

lemma symptom_scan_first:
  assumes "i < length tbl"
    and "sublist (fst (tbl ! i)) (lower t)"
    and "\<forall>j<i. \<not> sublist (fst (tbl ! j)) (lower t)"
  shows "symptom_scan tbl t = ''I see you mentioned '' @ fst (tbl ! i) @ ''. '' @ snd (tbl ! i)"
  using assms
proof (induction tbl arbitrary: i)
  case Nil
  then show ?case by simp
next
  case (Cons kq tbl)
  obtain k q where kq: "kq = (k, q)" by (cases kq)
  show ?case
  proof (cases i)
    case 0
    with Cons.prems kq show ?thesis by (simp add: py_in_sublist)
  next
    case (Suc n)
    from Cons.prems(3) Suc have miss: "\<not> sublist k (lower t)"
      using kq by (auto dest: spec [of _ 0])
    from Cons.prems Suc have "n < length tbl" "sublist (fst (tbl ! n)) (lower t)"
      "\<forall>j<n. \<not> sublist (fst (tbl ! j)) (lower t)"
      by auto
    from Cons.IH [OF this] miss kq Suc show ?thesis by (simp add: py_in_sublist)
  qed
qed

lemma symptom_scan_none:
  "\<forall>k \<in> set (map fst tbl). \<not> sublist k (lower t) \<Longrightarrow>
   symptom_scan tbl t = ''Can you describe your symptoms in more detail?''"
  by (induction tbl) (auto simp: py_in_sublist)

lemma knowledge_scan_none:
  "\<forall>k \<in> set (map fst tbl). \<not> sublist k (lower t) \<Longrightarrow>
   knowledge_scan tbl t =
     ''I recommend consulting a healthcare professional for more detailed information.''"
  by (induction tbl) (auto simp: py_in_sublist)

text \<open>
  Claim C4. If the lower-cased text contains a key of the follow-up table, and \<open>i\<close> is the
  position of the first such key in the table's order, \<open>symptom_checker\<close> returns exactly
  "I see you mentioned k. Q" for the key \<open>k\<close> and question \<open>Q\<close> at position \<open>i\<close>. If it
  contains no key, \<open>symptom_checker\<close> returns the generic request for more detail; and if
  it contains no key of the fact table, \<open>fetch_medical_knowledge\<close> returns the generic
  advice to consult a professional.
\<close>

theorem knowledge_lookup_first_match:
  "(i < length symptom_mapping \<and> sublist (fst (symptom_mapping ! i)) (lower t) \<and>
      (\<forall>j<i. \<not> sublist (fst (symptom_mapping ! j)) (lower t))
     \<longrightarrow> symptom_checker t =
          ''I see you mentioned '' @ fst (symptom_mapping ! i) @ ''. '' @ snd (symptom_mapping ! i))
   \<and> ((\<forall>k \<in> set (map fst symptom_mapping). \<not> sublist k (lower t))
     \<longrightarrow> symptom_checker t = ''Can you describe your symptoms in more detail?'')
   \<and> ((\<forall>k \<in> set (map fst medical_knowledge). \<not> sublist k (lower t))
     \<longrightarrow> fetch_medical_knowledge t =
          ''I recommend consulting a healthcare professional for more detailed information.'')"
  unfolding symptom_checker_def fetch_medical_knowledge_def
  using symptom_scan_first [of i symptom_mapping t]
    symptom_scan_none [of symptom_mapping t] knowledge_scan_none [of medical_knowledge t]
  by blast

theorem knowledge_lookup_first_match_witness:
  "sublist ''cough'' (lower ''Chest pain and a Cough'')
   \<and> \<not> sublist ''headache'' (lower ''Chest pain and a Cough'')
   \<and> \<not> sublist ''fever'' (lower ''Chest pain and a Cough'')
   \<and> symptom_checker ''Chest pain and a Cough'' =
        ''I see you mentioned cough. Is your cough dry or productive? Do you have shortness of breath?''
   \<and> symptom_checker ''My knee hurts'' = ''Can you describe your symptoms in more detail?''
   \<and> fetch_medical_knowledge ''My knee hurts'' =
        ''I recommend consulting a healthcare professional for more detailed information.''"
proof -
  have a: "2 < length symptom_mapping"
    by (simp add: symptom_mapping_def)
  have e: "fst (symptom_mapping ! 0) = ''headache''" "fst (symptom_mapping ! 1) = ''fever''"
    "fst (symptom_mapping ! 2) = ''cough''"
    "snd (symptom_mapping ! 2) = ''Is your cough dry or productive? Do you have shortness of breath?''"
    by (simp_all add: symptom_mapping_def)
  have b: "sublist ''cough'' (lower ''Chest pain and a Cough'')"
    by code_simp
  have c0: "\<not> sublist ''headache'' (lower ''Chest pain and a Cough'')"
    by code_simp
  have c1: "\<not> sublist ''fever'' (lower ''Chest pain and a Cough'')"
    by code_simp
  have c: "\<forall>j<2. \<not> sublist (fst (symptom_mapping ! j)) (lower ''Chest pain and a Cough'')"
  proof (intro allI impI)
    fix j :: nat
    assume "j < 2"
    then have "j = 0 \<or> j = 1" by arith
    with c0 c1 e show "\<not> sublist (fst (symptom_mapping ! j)) (lower ''Chest pain and a Cough'')"
      by auto
  qed
  have h2: "\<forall>k \<in> set (map fst symptom_mapping). \<not> sublist k (lower ''My knee hurts'')"
    by code_simp
  have h3: "\<forall>k \<in> set (map fst medical_knowledge). \<not> sublist k (lower ''My knee hurts'')"
    by code_simp
  from a b c0 c1 c h2 h3 e knowledge_lookup_first_match [of 2 "''Chest pain and a Cough''"]
    knowledge_lookup_first_match [of 0 "''My knee hurts''"]
  show ?thesis by simp
qed

section \<open>Evaluation of the concrete examples\<close>

lemmas sample_defs = sample_world_def sample_state_def

lemmas adapter_defs =
  encode_image_def analyze_image_with_query_def transcribe_with_groq_def detect_emotion_def
  try_except_def call_kw_def unexpected_keyword_def Let_def
  b64_char_def b64_alphabet_def

lemmas orchestrator_defs =
  process_inputs_def gather_context_def respond_def no_input_def transcribe_step_def
  image_step_def image_argument_def speech_step_def user_input_of_def append_if_nonempty_def
  os_path_exists_def symptom_checker_def fetch_medical_knowledge_def
  symptom_mapping_def medical_knowledge_def lower_def lower_char_def strip_def isspace_def
  char_of_def bit_Suc_0_iff

section \<open>The encoder\<close>

text \<open>
  Claim C7. For a path that names a file, \<open>encode_image\<close> returns a payload whose base64
  decoding is exactly the bytes of the file; and \<open>encode_image\<close> raises
  \<open>FileNotFoundError\<close> exactly when \<open>os.path.exists\<close> is false for the path.
\<close>

theorem encode_image_roundtrip:
  "(files s p = Some data \<longrightarrow>
      (\<exists>payload. encode_image s p = Inr payload \<and> b64decode payload = Some data))
   \<and> (raises FileNotFoundError (encode_image s p) \<longleftrightarrow> \<not> os_path_exists s p)"
  by (auto simp: encode_image_def os_path_exists_def b64_roundtrip split: option.splits)

theorem encode_image_roundtrip_witness:
  "files sample_state ''rash.jpg'' = Some [0x89, 0x50, 0x4E, 0x47, 0x0D]
   \<and> encode_image sample_state ''rash.jpg'' = Inr ''iVBORw0=''
   \<and> b64decode ''iVBORw0='' = Some [0x89, 0x50, 0x4E, 0x47, 0x0D]
   \<and> \<not> os_path_exists sample_state ''acne.jpg''
   \<and> raises FileNotFoundError (encode_image sample_state ''acne.jpg'')"
proof -
  have f: "files sample_state ''rash.jpg'' = Some [0x89, 0x50, 0x4E, 0x47, 0x0D]"
    by (simp add: sample_state_def)
  have e: "encode_image sample_state ''rash.jpg'' = Inr ''iVBORw0=''"
    by (simp add: adapter_defs sample_defs)
  have n: "\<not> os_path_exists sample_state ''acne.jpg''"
    by (simp add: sample_state_def os_path_exists_def)
  from f e n encode_image_roundtrip [of sample_state "''rash.jpg''" "[0x89, 0x50, 0x4E, 0x47, 0x0D]"]
    encode_image_roundtrip [of sample_state "''acne.jpg''" "[]"]
  show ?thesis by simp
qed

section \<open>The speech-to-text adapter\<close>

text \<open>
  The service answers with a transcript that has a blank on either side;
  \<open>transcribe_with_groq\<close> returns it as it came, which is not its trimmed form.
\<close>

theorem transcript_not_trimmed:
  "fst (transcribe_with_groq sample_world ''whisper-large-v3'' ''cough.wav'' ''gsk-1'' ''auto'' sample_state)
     = Inr '' I have a cough ''
   \<and> strip '' I have a cough '' = ''I have a cough''
   \<and> fst (transcribe_with_groq sample_world ''whisper-large-v3'' ''cough.wav'' ''gsk-1'' ''auto'' sample_state)
     \<noteq> Inr (strip '' I have a cough '')"
  by (simp add: adapter_defs sample_defs strip_def isspace_def)

text \<open>
  Claim C6, amended. \<open>transcribe_with_groq\<close> always returns a string and never raises:
  the sentinel "Error: Audio file not found." when the file is missing, the different
  sentinel "Error: Failed to transcribe audio." when the remote call raises, the sentinel
  "Error: No transcription result." when the service answers with a falsy object, and
  otherwise the transcript exactly as the service gave it, without trimming.
\<close>

theorem transcribe_with_groq_total:
  "(\<exists>r. fst (transcribe_with_groq w m p k l s) = Inr r)
   \<and> (files s p = None \<longrightarrow>
        fst (transcribe_with_groq w m p k l s) = Inr ''Error: Audio file not found.'')
   \<and> (files s p = Some audio \<and> groq_transcriptions_create w k m audio l = Inl e \<longrightarrow>
        fst (transcribe_with_groq w m p k l s) = Inr ''Error: Failed to transcribe audio.'')
   \<and> (files s p = Some audio \<and> groq_transcriptions_create w k m audio l = Inr None \<longrightarrow>
        fst (transcribe_with_groq w m p k l s) = Inr ''Error: No transcription result.'')
   \<and> (files s p = Some audio \<and> groq_transcriptions_create w k m audio l = Inr (Some spoken) \<longrightarrow>
        fst (transcribe_with_groq w m p k l s) = Inr spoken)"
  by (auto simp: transcribe_with_groq_def try_except_def split: option.splits sum.splits)

theorem transcribe_with_groq_total_witness:
  "fst (transcribe_with_groq sample_world ''whisper-large-v3'' ''lost.wav'' ''gsk-1'' ''auto'' sample_state)
     = Inr ''Error: Audio file not found.''
   \<and> fst (transcribe_with_groq
          (sample_world\<lparr>groq_transcriptions_create :=
             (\<lambda>key model audio language. Inl (Exn BackendError ''connection reset''))\<rparr>)
          ''whisper-large-v3'' ''cough.wav'' ''gsk-1'' ''auto'' sample_state)
     = Inr ''Error: Failed to transcribe audio.''
   \<and> fst (transcribe_with_groq
          (sample_world\<lparr>groq_transcriptions_create := (\<lambda>key model audio language. Inr None)\<rparr>)
          ''whisper-large-v3'' ''cough.wav'' ''gsk-1'' ''auto'' sample_state)
     = Inr ''Error: No transcription result.''
   \<and> fst (transcribe_with_groq sample_world ''whisper-large-v3'' ''cough.wav'' ''gsk-1'' ''auto'' sample_state)
     = Inr '' I have a cough ''"
proof -
  have f: "files sample_state ''lost.wav'' = None" "files sample_state ''cough.wav'' = Some [0x52, 0x49]"
    by (simp_all add: sample_state_def)
  have g: "groq_transcriptions_create sample_world ''gsk-1'' ''whisper-large-v3'' [0x52, 0x49] ''auto''
      = Inr (Some '' I have a cough '')"
    by (simp add: sample_world_def)
  from f g
    transcribe_with_groq_total [of sample_world "''whisper-large-v3''" "''lost.wav''" "''gsk-1''"
      "''auto''" sample_state "[]" "Exn BackendError []" "[]"]
    transcribe_with_groq_total [of "sample_world\<lparr>groq_transcriptions_create :=
             (\<lambda>key model audio language. Inl (Exn BackendError ''connection reset''))\<rparr>"
      "''whisper-large-v3''" "''cough.wav''" "''gsk-1''" "''auto''" sample_state "[0x52, 0x49]"
      "Exn BackendError ''connection reset''" "[]"]
    transcribe_with_groq_total [of "sample_world\<lparr>groq_transcriptions_create :=
             (\<lambda>key model audio language. Inr None)\<rparr>"
      "''whisper-large-v3''" "''cough.wav''" "''gsk-1''" "''auto''" sample_state "[0x52, 0x49]"
      "Exn BackendError []" "[]"]
    transcribe_with_groq_total [of sample_world "''whisper-large-v3''" "''cough.wav''" "''gsk-1''"
      "''auto''" sample_state "[0x52, 0x49]" "Exn BackendError []" "'' I have a cough ''"]
  show ?thesis by simp
qed

section \<open>The basic synthesis: output names\<close>

lemma timestamped_sample:
  "timestamped sample_world ''final'' = ''final_1700000000.mp3''"
  "timestamped (sample_world\<lparr>time_time := 17000000009 / 10\<rparr>) ''final'' = ''final_1700000000.mp3''"
  by (simp_all add: timestamped_def sample_world_def py_int_def str_int_def str_nat.simps
      char_of_def bit_Suc_0_iff)

lemma gtts_save_sample:
  "gtts_save sample_world text lang = Inr (map of_char text)"
  "gtts_save (sample_world\<lparr>time_time := x\<rparr>) text lang = Inr (map of_char text)"
  by (simp_all add: sample_world_def)

text \<open>
  Claim C8. Two invocations of \<open>text_to_speech_with_gtts\<close> with the same
  \<open>output_filepath\<close>, the second one 0.7 seconds after the first and within the same
  second of the clock, produce the same output name; the second overwrites the audio
  the first one wrote.
\<close>

theorem gtts_same_second_same_file:
  "(let first = text_to_speech_with_gtts sample_world ''first'' ''final'' ''English'' sample_state;
        second = text_to_speech_with_gtts (sample_world\<lparr>time_time := 17000000009 / 10\<rparr>)
                   ''second'' ''final'' ''English'' (snd first)
    in fst first = Inr ''final_1700000000.mp3''
     \<and> fst second = Inr ''final_1700000000.mp3''
     \<and> files (snd first) ''final_1700000000.mp3'' = Some (map of_char ''first'')
     \<and> files (snd second) ''final_1700000000.mp3'' = Some (map of_char ''second''))"
  by (simp add: text_to_speech_with_gtts_def timestamped_sample gtts_save_sample Let_def
      play_audio_def write_file_def record_event_def GTTS_SUPPORTED_LANGUAGES_def)

section \<open>The orchestrator: the test for no input\<close>

text \<open>
  With all three inputs \<open>None\<close> the test raises \<open>AttributeError\<close>; with an empty audio
  path (rather than \<open>None\<close>) and empty text the request is not rejected, and three turns
  are appended to the memory.
\<close>

theorem absent_or_empty_not_rejected:
  "raises AttributeError (fst (process_inputs sample_world None None None ''en'' sample_state))
   \<and> fst (process_inputs sample_world (Some []) None (Some []) ''en'' sample_state)
       \<noteq> Inr (''No input provided'', ''No doctor response'', None)
   \<and> conversation_memory (snd (process_inputs sample_world (Some []) None (Some []) ''en'' sample_state))
       = [\<lparr>role = ''user'', content = []\<rparr>,
          \<lparr>role = ''system'', content = ''Can you describe your symptoms in more detail?''\<rparr>,
          \<lparr>role = ''system'', content =
             ''I recommend consulting a healthcare professional for more detailed information.''\<rparr>]"
  by (simp add: orchestrator_defs adapter_defs memory_append_def record_event_def)
    (simp add: sample_defs)

text \<open>
  Claim C3, amended. For every request whose audio path and image path are both \<open>None\<close>
  and whose free text is a string that is empty once white space is stripped,
  \<open>process_inputs\<close> returns the triple ("No input provided", "No doctor response", None)
  and leaves the state as it was: no adapter is entered and nothing is appended to the
  memory.
\<close>

theorem no_input_returns_fixed_triple:
  "strip t = [] \<Longrightarrow>
   process_inputs w None None (Some t) lang s =
     (Inr (''No input provided'', ''No doctor response'', None), s)"
  by (simp add: process_inputs_def gather_context_def no_input_def)

theorem no_input_returns_fixed_triple_witness:
  "strip [CHR '' '', CHR 0x09] = []
   \<and> process_inputs sample_world None None (Some [CHR '' '', CHR 0x09]) ''en'' sample_state =
     (Inr (''No input provided'', ''No doctor response'', None), sample_state)"
proof -
  have h: "strip [CHR '' '', CHR 0x09] = []"
    by (simp add: strip_def isspace_def)
  from h no_input_returns_fixed_triple [OF h, of sample_world "''en''" sample_state]
  show ?thesis by simp
qed

section \<open>The orchestrator: from the inputs to the composed response\<close>

lemma no_input_False:
  "a \<noteq> None \<or> i \<noteq> None \<Longrightarrow> no_input a i t = Inr False"
  by (auto simp: no_input_def)

lemma no_input_file_given: "file_given s a \<Longrightarrow> no_input a i t = Inr False"
  by (auto simp: no_input_def file_given_def)

lemma gather_context_no_key:
  assumes "no_input a i t = Inr False" and "file_given s a" and "\<not> credential_ok w"
  shows "gather_context w a i t s =
     (Inr (Return (''Error: Missing GROQ API Key'', ''No doctor response'', None)),
      record_event (EnvGet ''GROQ_API_KEY'') s)"
  using assms transcribe_step_no_key [of s a w] by (simp add: gather_context_def)

lemma gather_context_proceeds:
  assumes v: "no_input a i t = Inr False" and c: "file_given s a \<longrightarrow> credential_ok w"
  shows "\<exists>spoken e s'.
     gather_context w a i t s = (Inr (Continue (user_input_of t spoken, e)), s') \<and>
     (\<not> file_given s a \<longrightarrow> spoken = []) \<and>
     conversation_memory s' = conversation_memory s @
       [\<lparr>role = ''user'', content = user_input_of t spoken\<rparr>,
        \<lparr>role = ''system'', content = symptom_checker (user_input_of t spoken)\<rparr>,
        \<lparr>role = ''system'', content = fetch_medical_knowledge (user_input_of t spoken)\<rparr>] \<and>
     filter stt_event (trace s') =
       filter stt_event (trace s) @
         (if file_given s a then [EnvGet ''GROQ_API_KEY'', Transcription (the a)] else []) \<and>
     length (filter vision_event (trace s')) =
       length (filter vision_event (trace s)) + (if file_given s i then 1 else 0)"
proof (cases "file_given s a")
  case False
  then have tr: "transcribe_step w a s = (Inr (Continue []), s)"
    by (rule transcribe_step_skipped)
  from gather_context_after_transcribe [OF v tr] False show ?thesis
    by auto
next
  case True
  with c have "credential_ok w" by simp
  from transcribe_step_done [OF True this] obtain spoken s1 where
    tr: "transcribe_step w a s = (Inr (Continue spoken), s1)"
    and m: "conversation_memory s1 = conversation_memory s" and f: "files s1 = files s"
    and t: "trace s1 = trace s @ [EnvGet ''GROQ_API_KEY'', Transcription (the a),
                                 EnvGet ''EMOTION_API_KEY'', EmotionDetection (the a)]"
    by blast
  have fg: "file_given s1 i = file_given s i"
    using f by (rule file_given_files)
  from gather_context_after_transcribe [OF v tr] True m t fg show ?thesis
    by auto
qed

lemma process_inputs_after_gather:
  assumes "gather_context w a i t s = (Inr (Continue l), s')"
  shows "\<exists>e. process_inputs w a i t lang s = (Inl e, s') \<and>
           (exn_class_of e = TypeError \<or> exn_class_of e = UnboundLocalError)"
  using assms respond_raises [of w i lang l s'] by (auto simp: process_inputs_def)

section \<open>The orchestrator: free text of None\<close>

text \<open>
  With free text \<open>None\<close> and an audio path given, a missing key makes \<open>process_inputs\<close>
  return the credential triple; with free text \<open>None\<close> and an image given it raises
  \<open>TypeError\<close> at the composed response. Neither is an \<open>AttributeError\<close>.
\<close>

theorem none_text_with_a_path_given:
  "fst (process_inputs (sample_world\<lparr>environ := Map.empty\<rparr>)
          (Some ''cough.wav'') None None ''en'' sample_state)
     = Inr (''Error: Missing GROQ API Key'', ''No doctor response'', None)
   \<and> raises TypeError (fst (process_inputs sample_world None (Some ''rash.jpg'') None ''en'' sample_state))
   \<and> \<not> raises AttributeError
         (fst (process_inputs sample_world None (Some ''rash.jpg'') None ''en'' sample_state))"
  by (simp add: orchestrator_defs adapter_defs memory_append_def record_event_def sample_defs)

text \<open>
  Claim C10, amended. For a request whose free text is \<open>None\<close>, \<open>process_inputs\<close> raises
  \<open>AttributeError\<close> exactly when the audio path and the image path are both \<open>None\<close>, and it
  does so in the first test, with the state untouched. When either path is given, the
  test does not call \<open>strip\<close> and no \<open>AttributeError\<close> is raised.
\<close>

theorem none_text_attribute_error:
  "process_inputs w None None None lang s =
     (Inl (Exn AttributeError
        (''NoneType'' @ [CHR 0x27] @ '' object has no attribute '' @ [CHR 0x27] @ ''strip'' @ [CHR 0x27])), s)
   \<and> (raises AttributeError (fst (process_inputs w a i None lang s)) \<longleftrightarrow> a = None \<and> i = None)"
proof (intro conjI iffI)
  show first: "process_inputs w None None None lang s =
     (Inl (Exn AttributeError
        (''NoneType'' @ [CHR 0x27] @ '' object has no attribute '' @ [CHR 0x27] @ ''strip'' @ [CHR 0x27])), s)"
    by (simp add: process_inputs_def gather_context_def no_input_def)
  show "raises AttributeError (fst (process_inputs w a i None lang s))" if "a = None \<and> i = None"
    using that first by simp
  show "a = None" if r: "raises AttributeError (fst (process_inputs w a i None lang s))"
  proof (rule ccontr)
    assume "a \<noteq> None"
    then have v: "no_input a i None = Inr False" by (simp add: no_input_False)
    show False
    proof (cases "file_given s a \<and> \<not> credential_ok w")
      case True
      with v gather_context_no_key [of a i None s w] r show False
        by (simp add: process_inputs_def)
    next
      case False
      then have "file_given s a \<longrightarrow> credential_ok w" by blast
      from gather_context_proceeds [OF v this] obtain l s' where
        "gather_context w a i None s = (Inr (Continue l), s')" by blast
      from process_inputs_after_gather [OF this, of lang] r show False by auto
    qed
  qed
  show "i = None" if r: "raises AttributeError (fst (process_inputs w a i None lang s))"
  proof (rule ccontr)
    assume "i \<noteq> None"
    then have v: "no_input a i None = Inr False" by (simp add: no_input_False)
    show False
    proof (cases "file_given s a \<and> \<not> credential_ok w")
      case True
      with v gather_context_no_key [of a i None s w] r show False
        by (simp add: process_inputs_def)
    next
      case False
      then have "file_given s a \<longrightarrow> credential_ok w" by blast
      from gather_context_proceeds [OF v this] obtain l s' where
        "gather_context w a i None s = (Inr (Continue l), s')" by blast
      from process_inputs_after_gather [OF this, of lang] r show False by auto
    qed
  qed
qed

section \<open>The orchestrator: what the memory holds when the response is composed\<close>

text \<open>
  A request with a recording on disk and no key in the environment passes the first
  test, leaves at the credential check and appends nothing to the memory.
\<close>

theorem credential_exit_appends_nothing:
  "no_input (Some ''cough.wav'') None (Some []) = Inr False
   \<and> fst (process_inputs (sample_world\<lparr>environ := Map.empty\<rparr>)
            (Some ''cough.wav'') None (Some []) ''en'' sample_state)
       = Inr (''Error: Missing GROQ API Key'', ''No doctor response'', None)
   \<and> conversation_memory (snd (process_inputs (sample_world\<lparr>environ := Map.empty\<rparr>)
            (Some ''cough.wav'') None (Some []) ''en'' sample_state)) = []"
  by (simp add: orchestrator_defs adapter_defs memory_append_def record_event_def sample_defs)

text \<open>
  Claim C9, amended. \<open>symptom_checker\<close> and \<open>fetch_medical_knowledge\<close> return a
  non-empty string on every input. Every request that passes the first test and is not
  stopped by the credential check reaches the composed response, and at that point the
  memory has grown by a user turn followed by exactly two system turns: the follow-up
  question and the medical fact for the user's text.
\<close>

theorem memory_before_composition:
  "symptom_checker x \<noteq> [] \<and> fetch_medical_knowledge x \<noteq> []
   \<and> (no_input a i t = Inr False \<and> (file_given s a \<longrightarrow> credential_ok w) \<longrightarrow>
        (\<exists>u e s'. gather_context w a i t s = (Inr (Continue (u, e)), s') \<and>
           conversation_memory s' = conversation_memory s @
             [\<lparr>role = ''user'', content = u\<rparr>,
              \<lparr>role = ''system'', content = symptom_checker u\<rparr>,
              \<lparr>role = ''system'', content = fetch_medical_knowledge u\<rparr>]))"
proof (intro conjI impI)
  show "symptom_checker x \<noteq> []"
    by (simp add: symptom_checker_def symptom_scan_nonempty)
  show "fetch_medical_knowledge x \<noteq> []"
    by (simp add: fetch_medical_knowledge_def knowledge_scan_nonempty)
  assume "no_input a i t = Inr False \<and> (file_given s a \<longrightarrow> credential_ok w)"
  then have "no_input a i t = Inr False" "file_given s a \<longrightarrow> credential_ok w"
    by simp_all
  from gather_context_proceeds [OF this]
  show "\<exists>u e s'. gather_context w a i t s = (Inr (Continue (u, e)), s') \<and>
           conversation_memory s' = conversation_memory s @
             [\<lparr>role = ''user'', content = u\<rparr>,
              \<lparr>role = ''system'', content = symptom_checker u\<rparr>,
              \<lparr>role = ''system'', content = fetch_medical_knowledge u\<rparr>]"
    by blast
qed

theorem memory_before_composition_witness:
  "no_input None None (Some ''I have a headache and fever'') = Inr False
   \<and> \<not> file_given sample_state None
   \<and> (\<exists>u e s'. gather_context sample_world None None (Some ''I have a headache and fever'') sample_state
                  = (Inr (Continue (u, e)), s') \<and>
           conversation_memory s' = conversation_memory sample_state @
             [\<lparr>role = ''user'', content = u\<rparr>,
              \<lparr>role = ''system'', content = symptom_checker u\<rparr>,
              \<lparr>role = ''system'', content = fetch_medical_knowledge u\<rparr>])
   \<and> conversation_memory
         (snd (gather_context sample_world None None (Some ''I have a headache and fever'') sample_state))
       = [\<lparr>role = ''user'', content = ''I have a headache and fever''\<rparr>,
          \<lparr>role = ''system'', content =
             ''I see you mentioned headache. Do you have any other symptoms like fever or nausea?''\<rparr>,
          \<lparr>role = ''system'', content =
             ''Medical Information: Headaches can be caused by stress, dehydration, or migraines. Drink water and rest.''\<rparr>]"
proof -
  have v: "no_input None None (Some ''I have a headache and fever'') = Inr False"
    by (simp add: no_input_def strip_def isspace_def)
  have g: "\<not> file_given sample_state None"
    by (simp add: file_given_def)
  have c: "conversation_memory
         (snd (gather_context sample_world None None (Some ''I have a headache and fever'') sample_state))
       = [\<lparr>role = ''user'', content = ''I have a headache and fever''\<rparr>,
          \<lparr>role = ''system'', content =
             ''I see you mentioned headache. Do you have any other symptoms like fever or nausea?''\<rparr>,
          \<lparr>role = ''system'', content =
             ''Medical Information: Headaches can be caused by stress, dehydration, or migraines. Drink water and rest.''\<rparr>]"
    by (simp add: orchestrator_defs adapter_defs memory_append_def record_event_def sample_defs)
  from v g c
    memory_before_composition [of "[]" None None "Some ''I have a headache and fever''"
      sample_state sample_world]
  show ?thesis by simp
qed

section \<open>The orchestrator: effective text and skipped transcription\<close>

lemma process_inputs_early:
  "no_input a i t = Inl e \<Longrightarrow> process_inputs w a i t lang s = (Inl e, s)"
  "no_input a i t = Inr True \<Longrightarrow>
   process_inputs w a i t lang s = (Inr (''No input provided'', ''No doctor response'', None), s)"
  by (simp_all add: process_inputs_def gather_context_def)

text \<open>
  Claim C5. When the free text is not empty and a transcript is made (the audio file
  exists and the key is set), the text used from there on is the free text: it is the
  user turn, and the follow-up question and the medical fact are computed from it. When
  the audio path names no existing file, the transcription block is skipped: neither the
  read of the key nor the speech-to-text adapter occurs, and a request that passes the
  first test goes on with the free text (with the empty transcript when there is none).
  A request with an audio path always passes the first test.
\<close>

theorem free_text_preferred_and_transcription_skipped:
  "(t \<noteq> [] \<and> file_given s a \<and> credential_ok w \<longrightarrow>
      Transcription (the a) \<in> set (trace (snd (process_inputs w a i (Some t) lang s))) \<and>
      conversation_memory (snd (process_inputs w a i (Some t) lang s)) =
        conversation_memory s @
          [\<lparr>role = ''user'', content = t\<rparr>,
           \<lparr>role = ''system'', content = symptom_checker t\<rparr>,
           \<lparr>role = ''system'', content = fetch_medical_knowledge t\<rparr>])
   \<and> (\<not> file_given s a \<longrightarrow>
        filter stt_event (trace (snd (process_inputs w a i x lang s))) = filter stt_event (trace s))
   \<and> (\<not> file_given s a \<and> no_input a i x = Inr False \<longrightarrow>
        conversation_memory (snd (process_inputs w a i x lang s)) =
          conversation_memory s @
            [\<lparr>role = ''user'', content = user_input_of x []\<rparr>,
             \<lparr>role = ''system'', content = symptom_checker (user_input_of x [])\<rparr>,
             \<lparr>role = ''system'', content = fetch_medical_knowledge (user_input_of x [])\<rparr>])
   \<and> (a \<noteq> None \<longrightarrow> no_input a i x = Inr False)"
proof (intro conjI impI)
  show "no_input a i x = Inr False" if "a \<noteq> None"
    using that by (simp add: no_input_False)
next
  assume h: "t \<noteq> [] \<and> file_given s a \<and> credential_ok w"
  then have v: "no_input a i (Some t) = Inr False"
    using no_input_file_given [of s a i "Some t"] by blast
  from h have c: "file_given s a \<longrightarrow> credential_ok w" by simp
  from h have u: "user_input_of (Some t) spoken = t" for spoken
    by (simp add: user_input_of_def)
  from gather_context_proceeds [OF v c] h obtain e s' where
    g: "gather_context w a i (Some t) s = (Inr (Continue (t, e)), s')"
    and m: "conversation_memory s' = conversation_memory s @
          [\<lparr>role = ''user'', content = t\<rparr>,
           \<lparr>role = ''system'', content = symptom_checker t\<rparr>,
           \<lparr>role = ''system'', content = fetch_medical_knowledge t\<rparr>]"
    and f: "filter stt_event (trace s') =
       filter stt_event (trace s) @ [EnvGet ''GROQ_API_KEY'', Transcription (the a)]"
    unfolding u by auto
  from process_inputs_after_gather [OF g, of lang]
  have p: "snd (process_inputs w a i (Some t) lang s) = s'" by auto
  have "Transcription (the a) \<in> set (filter stt_event (trace s'))"
    unfolding f by simp
  then have "Transcription (the a) \<in> set (trace s')" by simp
  then show "Transcription (the a) \<in> set (trace (snd (process_inputs w a i (Some t) lang s)))"
    unfolding p .
  show "conversation_memory (snd (process_inputs w a i (Some t) lang s)) =
        conversation_memory s @
          [\<lparr>role = ''user'', content = t\<rparr>,
           \<lparr>role = ''system'', content = symptom_checker t\<rparr>,
           \<lparr>role = ''system'', content = fetch_medical_knowledge t\<rparr>]"
    unfolding p by (rule m)
next
  assume n: "\<not> file_given s a"
  show "filter stt_event (trace (snd (process_inputs w a i x lang s))) = filter stt_event (trace s)"
  proof (cases "no_input a i x")
    case (Inl e)
    then show ?thesis by (simp add: process_inputs_early)
  next
    case (Inr b)
    show ?thesis
    proof (cases b)
      case True
      with Inr show ?thesis by (simp add: process_inputs_early)
    next
      case False
      with Inr have v: "no_input a i x = Inr False" by simp
      from n have c: "file_given s a \<longrightarrow> credential_ok w" by simp
      from gather_context_proceeds [OF v c] n obtain l s' where
        g: "gather_context w a i x s = (Inr (Continue l), s')"
        and f: "filter stt_event (trace s') = filter stt_event (trace s)"
        by auto
      from process_inputs_after_gather [OF g, of lang]
      have "snd (process_inputs w a i x lang s) = s'" by auto
      with f show ?thesis by simp
    qed
  qed
next
  assume h: "\<not> file_given s a \<and> no_input a i x = Inr False"
  then have v: "no_input a i x = Inr False" and c: "file_given s a \<longrightarrow> credential_ok w"
    by simp_all
  from gather_context_proceeds [OF v c] h obtain e s' where
    g: "gather_context w a i x s = (Inr (Continue (user_input_of x [], e)), s')"
    and m: "conversation_memory s' = conversation_memory s @
            [\<lparr>role = ''user'', content = user_input_of x []\<rparr>,
             \<lparr>role = ''system'', content = symptom_checker (user_input_of x [])\<rparr>,
             \<lparr>role = ''system'', content = fetch_medical_knowledge (user_input_of x [])\<rparr>]"
    by auto
  from process_inputs_after_gather [OF g, of lang]
  have "snd (process_inputs w a i x lang s) = s'" by auto
  with m show "conversation_memory (snd (process_inputs w a i x lang s)) =
          conversation_memory s @
            [\<lparr>role = ''user'', content = user_input_of x []\<rparr>,
             \<lparr>role = ''system'', content = symptom_checker (user_input_of x [])\<rparr>,
             \<lparr>role = ''system'', content = fetch_medical_knowledge (user_input_of x [])\<rparr>]"
    by simp
qed


theorem free_text_preferred_and_transcription_skipped_witness:
  "file_given sample_state (Some ''cough.wav'') \<and> credential_ok sample_world
   \<and> Transcription ''cough.wav'' \<in> set (trace (snd (process_inputs sample_world
         (Some ''cough.wav'') None (Some ''I have a fever'') ''en'' sample_state)))
   \<and> conversation_memory (snd (process_inputs sample_world
         (Some ''cough.wav'') None (Some ''I have a fever'') ''en'' sample_state)) =
       [\<lparr>role = ''user'', content = ''I have a fever''\<rparr>,
        \<lparr>role = ''system'', content = symptom_checker ''I have a fever''\<rparr>,
        \<lparr>role = ''system'', content = fetch_medical_knowledge ''I have a fever''\<rparr>]
   \<and> \<not> file_given sample_state (Some ''lost.wav'')
   \<and> no_input (Some ''lost.wav'') None (Some ''I have a fever'') = Inr False
   \<and> filter stt_event (trace (snd (process_inputs sample_world
         (Some ''lost.wav'') None (Some ''I have a fever'') ''en'' sample_state))) = []
   \<and> conversation_memory (snd (process_inputs sample_world
         (Some ''lost.wav'') None (Some ''I have a fever'') ''en'' sample_state)) =
       [\<lparr>role = ''user'', content = ''I have a fever''\<rparr>,
        \<lparr>role = ''system'', content = symptom_checker ''I have a fever''\<rparr>,
        \<lparr>role = ''system'', content = fetch_medical_knowledge ''I have a fever''\<rparr>]"
proof -
  have g: "file_given sample_state (Some ''cough.wav'')" "\<not> file_given sample_state (Some ''lost.wav'')"
    by (simp_all add: file_given_def os_path_exists_def sample_state_def)
  have k: "credential_ok sample_world"
    by (simp add: credential_ok_def sample_world_def)
  have v: "no_input (Some ''lost.wav'') None (Some ''I have a fever'') = Inr False"
    by (simp add: no_input_def)
  have s: "conversation_memory sample_state = []" "trace sample_state = []"
    by (simp_all add: sample_state_def)
  have u: "user_input_of (Some ''I have a fever'') [] = ''I have a fever''"
    by (simp add: user_input_of_def)
  from g k v s u
    free_text_preferred_and_transcription_skipped [of "''I have a fever''" sample_state
      "Some ''cough.wav''" sample_world None "''en''" "Some ''I have a fever''"]
    free_text_preferred_and_transcription_skipped [of "''I have a fever''" sample_state
      "Some ''lost.wav''" sample_world None "''en''" "Some ''I have a fever''"]
  show ?thesis by simp
qed

section \<open>The orchestrator: the composed response\<close>

text \<open>
  Claim C1. The call that composes the response passes the keyword \<open>memory\<close>, which
  \<open>analyze_image_with_query\<close> does not take: every request that passes the first test
  and the credential check ends in an exception (\<open>TypeError\<close>, or \<open>UnboundLocalError\<close>
  when an image path is given that names no file), not in a triple.
\<close>

theorem process_inputs_raises_at_composition:
  "no_input a i t = Inr False \<and> (file_given s a \<longrightarrow> credential_ok w) \<longrightarrow>
     (\<exists>e. fst (process_inputs w a i t lang s) = Inl e \<and>
          (exn_class_of e = TypeError \<or> exn_class_of e = UnboundLocalError))"
proof
  assume "no_input a i t = Inr False \<and> (file_given s a \<longrightarrow> credential_ok w)"
  then have "no_input a i t = Inr False" "file_given s a \<longrightarrow> credential_ok w"
    by simp_all
  from gather_context_proceeds [OF this] obtain l s' where
    "gather_context w a i t s = (Inr (Continue l), s')" by blast
  from process_inputs_after_gather [OF this, of lang]
  show "\<exists>e. fst (process_inputs w a i t lang s) = Inl e \<and>
          (exn_class_of e = TypeError \<or> exn_class_of e = UnboundLocalError)"
    by auto
qed

theorem process_inputs_raises_at_composition_witness:
  "no_input None None (Some ''I have a headache and fever'') = Inr False
   \<and> \<not> file_given sample_state None
   \<and> (\<exists>e. fst (process_inputs sample_world None None (Some ''I have a headache and fever'') ''en''
                 sample_state) = Inl e \<and>
          (exn_class_of e = TypeError \<or> exn_class_of e = UnboundLocalError))
   \<and> fst (process_inputs sample_world None None (Some ''I have a headache and fever'') ''en''
            sample_state)
       = Inl (Exn TypeError (''analyze_image_with_query() got an unexpected keyword argument '' @
                [CHR 0x27] @ ''memory'' @ [CHR 0x27]))"
proof -
  have v: "no_input None None (Some ''I have a headache and fever'') = Inr False"
    by (simp add: no_input_def strip_def isspace_def)
  have g: "\<not> file_given sample_state None"
    by (simp add: file_given_def)
  have c: "fst (process_inputs sample_world None None (Some ''I have a headache and fever'') ''en''
            sample_state)
       = Inl (Exn TypeError (''analyze_image_with_query() got an unexpected keyword argument '' @
                [CHR 0x27] @ ''memory'' @ [CHR 0x27]))"
    by (simp add: orchestrator_defs adapter_defs memory_append_def record_event_def sample_defs)
  from v g c
    process_inputs_raises_at_composition [of None None "Some ''I have a headache and fever''"
      sample_state sample_world "''en''"]
  show ?thesis by blast
qed

text \<open>
  Claim C2. For no audio, the image rash.jpg on disk, empty text and language "en", the
  vision-language adapter is entered once, for the preliminary analysis; the call for
  the composed response raises \<open>TypeError\<close>, so no audio path is returned. The synthesis
  call passes the keyword \<open>language\<close>, which \<open>text_to_speech_with_elevenlabs\<close> does not
  take: the step yields the audio path \<open>None\<close> for the response text.
\<close>

theorem image_request_one_vision_call_then_raises:
  "fst (process_inputs sample_world None (Some ''rash.jpg'') (Some []) ''en'' sample_state)
       = Inl (Exn TypeError (''analyze_image_with_query() got an unexpected keyword argument '' @
                [CHR 0x27] @ ''memory'' @ [CHR 0x27]))
   \<and> filter vision_event
         (trace (snd (process_inputs sample_world None (Some ''rash.jpg'') (Some []) ''en'' sample_state)))
       = [VisionLanguage system_prompt (Some ''iVBORw0='') ''llama-3.2-11b-vision-preview'']
   \<and> speech_step sample_world ''With what I see, I think you have a mild rash.'' ''en'' sample_state
       = (None, sample_state)"
  by (simp add: orchestrator_defs adapter_defs memory_append_def record_event_def sample_defs)

end
